theory Spec2Isabelle
  imports Complex_Main "HOL-Library.Char_ord" "HOL-Library.List_Lexorder" "HOL-Library.Log_Nat"
begin

section \<open>Values of the HTTP layer\<close>

text \<open>
  Counts, pages, limits and stock are JavaScript numbers read on the integers (exact
  below \<open>2 ^ 53\<close>), with the two non-finite results a division can give kept as
  constructors; the one computation on fractions, the conversion rate, rounds as binary64
  does. Strings are lists of
  code units below 256, so an accented letter is one \<^typ>\<open>char\<close>, written by its code
  (\<open>CHR 0xE9\<close> is e-acute). Identifiers (\<open>ObjectId\<close>) are natural numbers and instants
  are milliseconds since the epoch.
\<close>

datatype jsnum = Num int | PosInfinity | NaN

datatype json = JUndefined | JNull | JBool bool | JNumber int | JString string

text \<open>
  What lies outside the repository: the regular-expression engine behind \<open>$regex\<close>
  with option \<open>i\<close> (whether a pattern is a regular expression at all, and whether it
  matches), \<open>Number(s)\<close> on a price (\<open>None\<close> is \<open>NaN\<close>), \<open>new Date(s)\<close>
  (\<open>None\<close> is \<open>Invalid Date\<close>) and \<open>Date.prototype.toISOString\<close>.
\<close>

record env =
  regexValid :: "string \<Rightarrow> bool"
  regexTest :: "string \<Rightarrow> string \<Rightarrow> bool"
  toNumber :: "string \<Rightarrow> rat option"
  toDate :: "string \<Rightarrow> int option"
  toISOString :: "int \<Rightarrow> string"

record validation_error =
  field :: string
  msg :: string
  val :: string

record pagination =
  currentPage :: int
  totalPages :: jsnum
  totalItems :: nat
  itemsPerPage :: int
  hasNextPage :: bool
  hasPrevPage :: bool
  nextPage :: "int option"
  prevPage :: "int option"

text \<open>
  The response envelope of \<open>utils/response.js\<close>. The \<open>timestamp\<close> field (the instant
  of sending) is left out; the HTTP status travels with the body.
\<close>

record 'a response =
  statusCode :: nat
  success :: bool
  message :: string
  data :: "'a option"
  meta :: "pagination option"
  errors :: "validation_error list option"

text \<open>
  Errors thrown inside a handler: \<open>asyncHandler\<close> passes them to the global error
  middleware of \<open>server.js\<close>.
\<close>

datatype error = ValidationError "validation_error list" | CastError | MongoServerError

definition truthy :: "string option \<Rightarrow> bool" where
  "truthy v = (case v of None \<Rightarrow> False | Some s \<Rightarrow> s \<noteq> [])"

definition sendSuccess :: "nat \<Rightarrow> string \<Rightarrow> 'a option \<Rightarrow> pagination option \<Rightarrow> 'a response" where
  "sendSuccess code m d mt =
     \<lparr>statusCode = code, success = True, message = m, data = d, meta = mt, errors = None\<rparr>"

definition sendError :: "nat \<Rightarrow> string \<Rightarrow> validation_error list option \<Rightarrow> 'a response" where
  "sendError code m errs =
     \<lparr>statusCode = code, success = False, message = m, data = None, meta = None, errors = errs\<rparr>"


definition errorHandler :: "error \<Rightarrow> 'a response" where
  "errorHandler e =
     (case e of
        ValidationError errs \<Rightarrow> sendError 400 ''Erreurs de validation'' (Some errs)
      | CastError \<Rightarrow> sendError 400 (''Ressource non trouv'' @ [CHR 0xE9] @ ''e - ID invalide'') None
      | MongoServerError \<Rightarrow> sendError 500 ''Erreur interne du serveur'' None)"

definition asyncHandler :: "error + 'a response \<Rightarrow> 'a response" where
  "asyncHandler r = (case r of Inl e \<Rightarrow> errorHandler e | Inr resp \<Rightarrow> resp)"

subsection \<open>The pagination envelope\<close>

definition Math_ceil_div :: "nat \<Rightarrow> int \<Rightarrow> jsnum" where
  "Math_ceil_div tot lmt =
     (if lmt = 0 then (if tot = 0 then NaN else PosInfinity)
      else Num \<lceil>rat_of_nat tot / rat_of_int lmt\<rceil>)"

fun js_less :: "int \<Rightarrow> jsnum \<Rightarrow> bool" where
  "js_less p (Num n) = (p < n)"
| "js_less p PosInfinity = True"
| "js_less p NaN = False"

definition sendPaginatedResponse :: "'a \<Rightarrow> int \<Rightarrow> int \<Rightarrow> nat \<Rightarrow> string \<Rightarrow> 'a response" where
  "sendPaginatedResponse d pg lmt tot m =
     (let totalPages = Math_ceil_div tot lmt;
          hasNextPage = js_less pg totalPages;
          hasPrevPage = (pg > 1)
      in sendSuccess 200 m (Some d)
           (Some \<lparr>currentPage = pg, totalPages = totalPages, totalItems = tot,
                  itemsPerPage = lmt, hasNextPage = hasNextPage, hasPrevPage = hasPrevPage,
                  nextPage = (if hasNextPage then Some (pg + 1) else None),
                  prevPage = (if hasPrevPage then Some (pg - 1) else None)\<rparr>))"

subsection \<open>Validation of the paging parameters\<close>

text \<open>
  \<open>isInt\<close> of validator.js: the string matches \<open>^[-+]?(0|[1-9][0-9]*)$\<close> and its
  numeric value lies within the bounds given.
\<close>

definition is_digit :: "char \<Rightarrow> bool" where
  "is_digit c = (c \<in> set ''0123456789'')"

definition digit_value :: "char \<Rightarrow> nat" where
  "digit_value c = of_char c - of_char CHR ''0''"

definition decimal_value :: "string \<Rightarrow> nat" where
  "decimal_value ds = foldl (\<lambda>n c. 10 * n + digit_value c) 0 ds"

definition unsigned_literal :: "string \<Rightarrow> bool" where
  "unsigned_literal s =
     (case s of [] \<Rightarrow> False
      | c # cs \<Rightarrow> (c = CHR ''0'' \<and> cs = []) \<or> (c \<in> set ''123456789'' \<and> list_all is_digit cs))"

definition int_literal :: "string \<Rightarrow> int option" where
  "int_literal s =
     (case s of
        [] \<Rightarrow> None
      | c # cs \<Rightarrow>
          if c = CHR ''-'' then (if unsigned_literal cs then Some (- int (decimal_value cs)) else None)
          else if c = CHR ''+'' then (if unsigned_literal cs then Some (int (decimal_value cs)) else None)
          else if unsigned_literal s then Some (int (decimal_value s)) else None)"


record paging =
  page :: "string option"
  limit :: "string option"





text \<open>
  The numeric reading of a paging parameter inside a handler (\<open>limit * 1\<close>,
  \<open>page - 1\<close>, \<open>parseInt(page)\<close>), after the destructuring default. The handlers are
  mounted behind \<open>validatePagination\<close>, so a parameter that is present is an integer
  literal; any other string is treated as a value the query cannot cast.
\<close>

definition numeric :: "int \<Rightarrow> string option \<Rightarrow> int option" where
  "numeric dflt v = (case v of None \<Rightarrow> Some dflt | Some s \<Rightarrow> int_literal s)"

subsection \<open>Cursors of the store\<close>

text \<open>
  \<open>find(...).sort(...).limit(l).skip(s)\<close>: the store skips before it limits, whatever
  the order of the calls; a limit of 0 is no limit, a negative one is its absolute value,
  and a negative skip is refused.
\<close>

fun insort_by :: "('a \<Rightarrow> 'a \<Rightarrow> bool) \<Rightarrow> 'a \<Rightarrow> 'a list \<Rightarrow> 'a list" where
  "insort_by le x [] = [x]"
| "insort_by le x (y # ys) = (if le x y then x # y # ys else y # insort_by le x ys)"

definition sort_by :: "('a \<Rightarrow> 'a \<Rightarrow> bool) \<Rightarrow> 'a list \<Rightarrow> 'a list" where
  "sort_by le xs = foldr (insort_by le) xs []"

definition skip_limit :: "int \<Rightarrow> int \<Rightarrow> 'a list \<Rightarrow> error + 'a list" where
  "skip_limit skp lmt xs =
     (if skp < 0 then Inl MongoServerError
      else Inr (let ys = drop (nat skp) xs in if lmt = 0 then ys else take (nat \<bar>lmt\<bar>) ys))"

section \<open>Documents and the store\<close>

text \<open>
  The schemas of \<open>models/Product.js\<close> and \<open>models/Lead.js\<close>. The image list and the
  creator of a product, which no operation below reads, are left out. A collection is the
  list of its documents in insertion order.
\<close>

record product =
  pid :: nat
  nom :: string
  prix :: rat
  categorie :: string
  stock :: int
  description :: string
  isActive :: bool
  featured :: bool
  views :: int
  createdAt :: int

datatype lead_status = nouveau | contacte | interesse | converti | perdu

record lead =
  lid :: nat
  lead_nom :: string
  tel :: string
  lead_message :: string
  produit :: nat
  status :: lead_status
  source :: string
  lead_notes :: string
  assignedTo :: "nat option"
  followUpDate :: "int option"
  isArchived :: bool
  lead_createdAt :: int

record store =
  products :: "product list"
  leads :: "lead list"

definition is_space :: "char \<Rightarrow> bool" where
  "is_space c = (c \<in> set [CHR 0x20, CHR 0x09, CHR 0x0A, CHR 0x0B, CHR 0x0C, CHR 0x0D, CHR 0xA0])"

definition trim :: "string \<Rightarrow> string" where
  "trim s = rev (dropWhile is_space (rev (dropWhile is_space s)))"

definition invalid :: "string \<Rightarrow> string \<Rightarrow> validation_error list" where
  "invalid path m = [\<lparr>field = path, msg = m, val = []\<rparr>]"

subsection \<open>Products\<close>



definition Product_findById :: "store \<Rightarrow> nat \<Rightarrow> product option" where
  "Product_findById st i = find (\<lambda>p. pid p = i) (products st)"







subsection \<open>Listing products\<close>











subsection \<open>Leads\<close>

definition nl2 :: string where
  "nl2 = [CHR 0x0A, CHR 0x0A]"

text \<open>
  The validator of \<open>tel\<close>: after the characters of \<open>[\s\-\(\)]\<close> are removed, the
  value matches \<open>^[\+]?[1-9][\d]{0,15}$\<close>.
\<close>

definition tel_valid :: "string \<Rightarrow> bool" where
  "tel_valid v =
     (let s = filter (\<lambda>c. \<not> (is_space c \<or> c \<in> set ''-()'')) v;
          t = (case s of [] \<Rightarrow> s | c # r \<Rightarrow> if c = CHR ''+'' then r else s)
      in case t of
           [] \<Rightarrow> False
         | d # ds \<Rightarrow> d \<in> set ''123456789'' \<and> length ds \<le> 15 \<and> list_all is_digit ds)"

definition leadSchema_validate :: "lead \<Rightarrow> validation_error list" where
  "leadSchema_validate l =
     (if lead_nom l = [] then invalid ''nom'' ''Le nom est requis''
      else if length (lead_nom l) > 50
      then invalid ''nom'' (''Le nom ne peut pas d'' @ [CHR 0xE9] @ ''passer 50 caract'' @ [CHR 0xE8] @ ''res'')
      else []) @
     (if tel l = []
      then invalid ''tel'' (''Le num'' @ [CHR 0xE9] @ ''ro de t'' @ [CHR 0xE9] @ ''l'' @ [CHR 0xE9] @ ''phone est requis'')
      else if \<not> tel_valid (tel l)
      then invalid ''tel''
             (''Veuillez entrer un num'' @ [CHR 0xE9] @ ''ro de t'' @ [CHR 0xE9] @ ''l'' @ [CHR 0xE9] @
              ''phone valide'')
      else []) @
     (if length (lead_message l) > 500
      then invalid ''message''
             (''Le message ne peut pas d'' @ [CHR 0xE9] @ ''passer 500 caract'' @ [CHR 0xE8] @ ''res'')
      else []) @
     (if source l \<notin> set [''website'', ''whatsapp'', ''direct'']
      then invalid ''source''
             ([CHR 0x60] @ source l @ [CHR 0x60] @ '' is not a valid enum value for path '' @
              [CHR 0x60] @ ''source'' @ [CHR 0x60] @ ''.'')
      else []) @
     (if length (lead_notes l) > 1000
      then invalid ''notes''
             (''Les notes ne peuvent pas d'' @ [CHR 0xE9] @ ''passer 1000 caract'' @ [CHR 0xE8] @ ''res'')
      else [])"

definition Lead_findById :: "store \<Rightarrow> nat \<Rightarrow> lead option" where
  "Lead_findById st i = find (\<lambda>l. lid l = i) (leads st)"

definition Lead_save :: "lead \<Rightarrow> store \<Rightarrow> error + store" where
  "Lead_save l st =
     (case leadSchema_validate l of
        [] \<Rightarrow> Inr (st\<lparr>leads := map (\<lambda>d. if lid d = lid l then l else d) (leads st)\<rparr>)
      | e # es \<Rightarrow> Inl (ValidationError (e # es)))"

record lead_body =
  b_nom :: "string option"
  b_tel :: "string option"
  b_message :: "string option"
  b_produit :: "nat option"

definition trimmed :: "string option \<Rightarrow> string" where
  "trimmed v = (case v of None \<Rightarrow> [] | Some s \<Rightarrow> trim s)"

definition new_id :: "store \<Rightarrow> nat" where
  "new_id st = Suc (fold max (map lid (leads st)) 0)"

text \<open>
  \<open>Lead.create\<close>: the setters trim the strings, the defaults of the schema fill the
  fields that are not given, the validators run and the document is inserted.
\<close>

definition new_lead :: "int \<Rightarrow> string option \<Rightarrow> string option \<Rightarrow> string option \<Rightarrow> nat \<Rightarrow> store \<Rightarrow> lead" where
  "new_lead now n t m p st =
     \<lparr>lid = new_id st, lead_nom = trimmed n, tel = trimmed t, lead_message = trimmed m,
      produit = p, status = nouveau, source = ''website'', lead_notes = [],
      assignedTo = None, followUpDate = None, isArchived = False, lead_createdAt = now\<rparr>"

definition Lead_create :: "int \<Rightarrow> string option \<Rightarrow> string option \<Rightarrow> string option \<Rightarrow> nat
    \<Rightarrow> store \<Rightarrow> error + lead \<times> store" where
  "Lead_create now n t m p st =
     (let l = new_lead now n t m p st
      in case leadSchema_validate l of
           [] \<Rightarrow> Inr (l, st\<lparr>leads := leads st @ [l]\<rparr>)
         | e # es \<Rightarrow> Inl (ValidationError (e # es)))"

definition createLead :: "int \<Rightarrow> store \<Rightarrow> lead_body \<Rightarrow> (error + lead option response) \<times> store" where
  "createLead now st body =
     (case (case b_produit body of None \<Rightarrow> None | Some i \<Rightarrow> Product_findById st i) of
        None \<Rightarrow> (Inr (sendError 404 (''Produit non trouv'' @ [CHR 0xE9]) None), st)
      | Some productExists \<Rightarrow>
          if \<not> isActive productExists
          then (Inr (sendError 400 (''Ce produit n'' @ [CHR 0x27] @ ''est plus disponible'') None), st)
          else (case Lead_create now (b_nom body) (b_tel body) (b_message body) (pid productExists) st of
                  Inl e \<Rightarrow> (Inl e, st)
                | Inr (l, st') \<Rightarrow>
                    (Inr (sendSuccess 201
                            (''Demande envoy'' @ [CHR 0xE9] @ ''e avec succ'' @ [CHR 0xE8] @
                             ''s! Nous vous contacterons bient'' @ [CHR 0xF4] @ ''t.'')
                            (Some (Lead_findById st' (lid l))) None), st')))"

definition getLeadById :: "store \<Rightarrow> nat \<Rightarrow> lead response" where
  "getLeadById st i =
     (case Lead_findById st i of
        None \<Rightarrow> sendError 404 (''Lead non trouv'' @ [CHR 0xE9]) None
      | Some l \<Rightarrow>
          sendSuccess 200 (''Lead r'' @ [CHR 0xE9] @ ''cup'' @ [CHR 0xE9] @ ''r'' @ [CHR 0xE9] @
                           '' avec succ'' @ [CHR 0xE8] @ ''s'') (Some l) None)"

subsection \<open>The lifecycle methods of a lead\<close>

text \<open>
  Each method changes the document in memory and saves it; the setter of \<open>notes\<close>
  trims what is assigned. The result is the document and the store after the save.
\<close>

definition updateStatus :: "env \<Rightarrow> int \<Rightarrow> lead_status \<Rightarrow> string \<Rightarrow> lead \<Rightarrow> store \<Rightarrow> error + lead \<times> store" where
  "updateStatus E now newStatus n this st =
     (let this = this\<lparr>status := newStatus\<rparr>;
          this = (if n \<noteq> []
                  then this\<lparr>lead_notes :=
                         trim (if lead_notes this \<noteq> []
                               then lead_notes this @ nl2 @ toISOString E now @ '': '' @ n
                               else n)\<rparr>
                  else this)
      in case Lead_save this st of Inl e \<Rightarrow> Inl e | Inr st' \<Rightarrow> Inr (this, st'))"


text \<open>
  The date given to \<open>scheduleFollowUp\<close> is \<open>None\<close> when it is \<open>Invalid Date\<close>: the
  field cannot take it and the save fails.
\<close>

definition scheduleFollowUp :: "env \<Rightarrow> int \<Rightarrow> int option \<Rightarrow> string \<Rightarrow> lead \<Rightarrow> store \<Rightarrow> error + lead \<times> store" where
  "scheduleFollowUp E now date n this st =
     (case date of
        None \<Rightarrow> Inl (ValidationError (invalid ''followUpDate'' ''Cast to date failed''))
      | Some d \<Rightarrow>
          (let this = this\<lparr>followUpDate := Some d\<rparr>;
               this = (if n \<noteq> []
                       then this\<lparr>lead_notes :=
                              trim (if lead_notes this \<noteq> []
                                    then lead_notes this @ nl2 @ toISOString E now @
                                         '': Suivi programm'' @ [CHR 0xE9] @ '' - '' @ n
                                    else n)\<rparr>
                       else this)
           in case Lead_save this st of Inl e \<Rightarrow> Inl e | Inr st' \<Rightarrow> Inr (this, st')))"

definition status_name :: "lead_status \<Rightarrow> string" where
  "status_name s =
     (case s of nouveau \<Rightarrow> ''nouveau'' | contacte \<Rightarrow> ''contacte'' | interesse \<Rightarrow> ''interesse''
      | converti \<Rightarrow> ''converti'' | perdu \<Rightarrow> ''perdu'')"

definition getNeedingFollowUp :: "int \<Rightarrow> store \<Rightarrow> lead list" where
  "getNeedingFollowUp now st =
     filter (\<lambda>l. (case followUpDate l of None \<Rightarrow> False | Some d \<Rightarrow> d \<le> now) \<and>
                 status l \<notin> set [converti, perdu] \<and>
                 isArchived l = False) (leads st)"

definition group_count :: "('a \<Rightarrow> 'k) \<Rightarrow> 'a list \<Rightarrow> ('k \<times> nat) list" where
  "group_count key xs = map (\<lambda>k. (k, length (filter (\<lambda>x. key x = k) xs))) (remdups (map key xs))"

definition getStats :: "store \<Rightarrow> (lead_status \<times> nat) list" where
  "getStats st = group_count status (leads st)"

subsection \<open>The lead controller\<close>



definition deleteLead :: "store \<Rightarrow> nat \<Rightarrow> (error + unit response) \<times> store" where
  "deleteLead st i =
     (case Lead_findById st i of
        None \<Rightarrow> (Inr (sendError 404 (''Lead non trouv'' @ [CHR 0xE9]) None), st)
      | Some l \<Rightarrow>
          (case Lead_save (l\<lparr>isArchived := True\<rparr>) st of
             Inl e \<Rightarrow> (Inl e, st)
           | Inr st' \<Rightarrow>
               (Inr (sendSuccess 200 (''Lead archiv'' @ [CHR 0xE9] @ '' avec succ'' @ [CHR 0xE8] @ ''s'')
                       None None), st')))"

subsection \<open>Listing leads\<close>

record lead_params = paging +
  lq_status :: "string option"
  lq_assignedTo :: "nat option"
  lq_search :: "string option"
  lq_dateFrom :: "string option"
  lq_dateTo :: "string option"
  lq_produit :: "nat option"

text \<open>
  The \<open>query\<close> object of \<open>getAllLeads\<close>. A date bound is absent, or \<open>new Date\<close> of
  the parameter (\<open>Some None\<close> when that is \<open>Invalid Date\<close>, which the store cannot
  cast).
\<close>

record lead_query =
  g_isArchived :: bool
  g_status :: "string option"
  g_assignedTo :: "nat option"
  g_produit :: "nat option"
  g_or_regex :: "string option"
  g_createdAt_gte :: "int option option"
  g_createdAt_lte :: "int option option"

definition lead_matches :: "env \<Rightarrow> lead_query \<Rightarrow> lead \<Rightarrow> bool" where
  "lead_matches E qy l =
     (isArchived l = g_isArchived qy \<and>
      (case g_status qy of None \<Rightarrow> True | Some s \<Rightarrow> status_name (status l) = s) \<and>
      (case g_assignedTo qy of None \<Rightarrow> True | Some u \<Rightarrow> assignedTo l = Some u) \<and>
      (case g_produit qy of None \<Rightarrow> True | Some p \<Rightarrow> produit l = p) \<and>
      (case g_or_regex qy of None \<Rightarrow> True
       | Some s \<Rightarrow> regexTest E s (lead_nom l) \<or> regexTest E s (tel l) \<or> regexTest E s (lead_message l)) \<and>
      (case g_createdAt_gte qy of Some (Some d) \<Rightarrow> d \<le> lead_createdAt l | _ \<Rightarrow> True) \<and>
      (case g_createdAt_lte qy of Some (Some d) \<Rightarrow> lead_createdAt l \<le> d | _ \<Rightarrow> True))"

definition lead_query_error :: "env \<Rightarrow> lead_query \<Rightarrow> error option" where
  "lead_query_error E qy =
     (if g_createdAt_gte qy = Some None \<or> g_createdAt_lte qy = Some None then Some CastError
      else case g_or_regex qy of
             None \<Rightarrow> None
           | Some s \<Rightarrow> if regexValid E s then None else Some MongoServerError)"

definition Lead_find :: "env \<Rightarrow> lead_query \<Rightarrow> store \<Rightarrow> error + lead list" where
  "Lead_find E qy st =
     (case lead_query_error E qy of
        Some e \<Rightarrow> Inl e
      | None \<Rightarrow> Inr (filter (lead_matches E qy) (leads st)))"

definition Lead_countDocuments :: "env \<Rightarrow> lead_query \<Rightarrow> store \<Rightarrow> error + nat" where
  "Lead_countDocuments E qy st =
     (case lead_query_error E qy of
        Some e \<Rightarrow> Inl e
      | None \<Rightarrow> Inr (length (filter (lead_matches E qy) (leads st))))"

definition newest_first :: "lead list \<Rightarrow> lead list" where
  "newest_first xs = sort_by (\<lambda>a b. lead_createdAt b \<le> lead_createdAt a) xs"

definition lead_query_of :: "env \<Rightarrow> lead_params \<Rightarrow> lead_query" where
  "lead_query_of E q =
     \<lparr>g_isArchived = False,
      g_status = (if truthy (lq_status q) then lq_status q else None),
      g_assignedTo = lq_assignedTo q,
      g_produit = lq_produit q,
      g_or_regex = (if truthy (lq_search q) then lq_search q else None),
      g_createdAt_gte = (if truthy (lq_dateFrom q) then Some (toDate E (the (lq_dateFrom q))) else None),
      g_createdAt_lte = (if truthy (lq_dateTo q) then Some (toDate E (the (lq_dateTo q))) else None)\<rparr>"

definition getAllLeads :: "env \<Rightarrow> store \<Rightarrow> lead_params \<Rightarrow> error + lead list response" where
  "getAllLeads E st q =
     (let query = lead_query_of E q
      in case (numeric 1 (page q), numeric 20 (limit q)) of
           (Some pg, Some lmt) \<Rightarrow>
             (case Lead_find E query st of
                Inl e \<Rightarrow> Inl e
              | Inr found \<Rightarrow>
                  (case skip_limit ((pg - 1) * lmt) (lmt * 1) (newest_first found) of
                     Inl e \<Rightarrow> Inl e
                   | Inr docs \<Rightarrow>
                       (case Lead_countDocuments E query st of
                          Inl e \<Rightarrow> Inl e
                        | Inr tot \<Rightarrow>
                            Inr (sendPaginatedResponse docs pg lmt tot
                                   (''Leads r'' @ [CHR 0xE9] @ ''cup'' @ [CHR 0xE9] @ ''r'' @ [CHR 0xE9] @
                                    ''s avec succ'' @ [CHR 0xE8] @ ''s'')))))
         | _ \<Rightarrow> Inl CastError)"

subsection \<open>Numbers of the runtime\<close>

text \<open>
  \<open>double\<close> is the binary64 value nearest to a rational, ties to even, as the
  arithmetic of the runtime rounds every quotient and product: \<open>binade x\<close> is the exponent
  \<open>k\<close> with \<open>2 ^ k \<le> x < 2 ^ (k + 1)\<close> and the significand has 53 bits (the exponent
  range is not bounded here: no value below comes near its ends). \<open>toFixed2 x\<close> is \<open>x.toFixed(2)\<close>:
  the integer \<open>n\<close> with \<open>n / 100\<close> nearest to \<open>x\<close>, the larger one of two, written with
  two decimals.
\<close>

definition binade :: "rat \<Rightarrow> int" where
  "binade x = (if 1 \<le> x then bitlen \<lfloor>x\<rfloor> - 1 else - bitlen (\<lceil>1 / x\<rceil> - 1))"

definition round_even :: "rat \<Rightarrow> int" where
  "round_even q =
     (let f = \<lfloor>q\<rfloor>; r = q - of_int f
      in if r < 1 / 2 then f else if 1 / 2 < r then f + 1 else if even f then f else f + 1)"

definition double :: "rat \<Rightarrow> rat" where
  "double x =
     (if x = 0 then 0
      else (let e = binade \<bar>x\<bar> - 52
            in sgn x * (of_int (round_even (\<bar>x\<bar> / 2 powi e)) * 2 powi e)))"

definition digit_char :: "nat \<Rightarrow> char" where
  "digit_char d = char_of (48 + d)"

fun show_nat :: "nat \<Rightarrow> string" where
  "show_nat n = (if n < 10 then [digit_char n] else show_nat (n div 10) @ [digit_char (n mod 10)])"

definition hundredths :: "rat \<Rightarrow> nat" where
  "hundredths x = nat \<lfloor>\<bar>x\<bar> * 100 + 1 / 2\<rfloor>"

definition fixed2 :: "nat \<Rightarrow> string" where
  "fixed2 n = show_nat (n div 100) @ ''.'' @ [digit_char (n div 10 mod 10), digit_char (n mod 10)]"

definition toFixed2 :: "rat \<Rightarrow> string" where
  "toFixed2 x = (if x < 0 then ''-'' else []) @ fixed2 (hundredths x)"

text \<open>The string of a value inside a template literal.\<close>

definition template :: "json \<Rightarrow> string" where
  "template v =
     (case v of
        JString s \<Rightarrow> s
      | JNumber n \<Rightarrow> (if n < 0 then ''-'' else []) @ show_nat (nat \<bar>n\<bar>)
      | JBool b \<Rightarrow> (if b then ''true'' else ''false'')
      | JNull \<Rightarrow> ''null''
      | JUndefined \<Rightarrow> ''undefined'')"

subsection \<open>Statistics of the leads\<close>

definition conversionRate :: "nat \<Rightarrow> nat \<Rightarrow> json" where
  "conversionRate convertedLeads totalLeads =
     (if totalLeads > 0
      then JString (toFixed2 (double (double (of_nat convertedLeads / of_nat totalLeads) * 100)))
      else JNumber 0)"

record lead_stats =
  byStatus :: "(lead_status \<times> nat) list"
  needingFollowUp :: nat
  recentActivity :: "(string \<times> nat) list"
  topProducts :: "(nat \<times> nat \<times> product option) list"
  conversion_total :: nat
  conversion_converted :: nat
  conversion_rate :: string

text \<open>
  \<open>getLeadStats\<close>. The instant thirty days back is taken on a server in UTC, and the
  day of a lead (\<open>$dateToString\<close> with \<open>%Y-%m-%d\<close>) is the first ten characters of its
  ISO form.
\<close>

definition getLeadStats :: "env \<Rightarrow> int \<Rightarrow> store \<Rightarrow> lead_stats response" where
  "getLeadStats E now st =
     (let statusStats = getStats st;
          needing = getNeedingFollowUp now st;
          thirtyDaysAgo = now - 30 * 86400000;
          recentStats =
            sort_by (\<lambda>a b. fst a \<le> fst b)
              (group_count (\<lambda>l. take 10 (toISOString E (lead_createdAt l)))
                 (filter (\<lambda>l. thirtyDaysAgo \<le> lead_createdAt l \<and> isArchived l = False) (leads st)));
          top =
            map (\<lambda>(p, c). (p, c, find (\<lambda>d. pid d = p) (products st)))
              (take 10
                 (sort_by (\<lambda>a b. snd b \<le> snd a)
                    (group_count produit (filter (\<lambda>l. isArchived l = False) (leads st)))));
          totalLeads = length (filter (\<lambda>l. isArchived l = False) (leads st));
          convertedLeads =
            length (filter (\<lambda>l. status l = converti \<and> isArchived l = False) (leads st));
          rate = conversionRate convertedLeads totalLeads
      in sendSuccess 200 (''Statistiques r'' @ [CHR 0xE9] @ ''cup'' @ [CHR 0xE9] @ ''r'' @ [CHR 0xE9] @ ''es'')
           (Some \<lparr>byStatus = statusStats, needingFollowUp = length needing,
                  recentActivity = recentStats, topProducts = top,
                  conversion_total = totalLeads, conversion_converted = convertedLeads,
                  conversion_rate = template rate @ ''%''\<rparr>)
           None)"

subsection \<open>The notes of a lead as a log\<close>

text \<open>
  The notes after an entry is appended, in the words of the specification, except that
  a log that is still empty takes the note as it is: the prior log, a blank line, the ISO
  timestamp, \<open>: \<close>, the tag of the operation and the note.
\<close>

definition log_entry :: "string \<Rightarrow> string \<Rightarrow> string \<Rightarrow> string \<Rightarrow> string" where
  "log_entry prior stamp tag n = (if prior = [] then n else prior @ nl2 @ stamp @ '': '' @ tag @ n)"

definition no_outer_space :: "string \<Rightarrow> bool" where
  "no_outer_space n = (n \<noteq> [] \<and> \<not> is_space (hd n) \<and> \<not> is_space (last n))"


subsection \<open>An environment for the examples\<close>

text \<open>
  A runtime in UTC, each function on the strings the examples use: \<open>toISOString\<close> for
  the years 0 to 9999, \<open>new Date\<close> on that same format, \<open>Number\<close> on integer literals
  and the regular expressions without metacharacters.
\<close>

definition civil_from_days :: "int \<Rightarrow> int \<times> int \<times> int" where
  "civil_from_days z0 =
     (let z = z0 + 719468;
          era = z div 146097;
          doe = z - era * 146097;
          yoe = (doe - doe div 1460 + doe div 36524 - doe div 146096) div 365;
          doy = doe - (365 * yoe + yoe div 4 - yoe div 100);
          mp = (5 * doy + 2) div 153;
          d = doy - (153 * mp + 2) div 5 + 1;
          m = (if mp < 10 then mp + 3 else mp - 9)
      in (yoe + era * 400 + (if m \<le> 2 then 1 else 0), m, d))"

definition days_from_civil :: "int \<Rightarrow> int \<Rightarrow> int \<Rightarrow> int" where
  "days_from_civil y0 m d =
     (let y = (if m \<le> 2 then y0 - 1 else y0);
          era = y div 400;
          yoe = y - era * 400;
          doy = (153 * (if m > 2 then m - 3 else m + 9) + 2) div 5 + d - 1;
          doe = yoe * 365 + yoe div 4 - yoe div 100 + doy
      in era * 146097 + doe - 719468)"

definition pad :: "nat \<Rightarrow> int \<Rightarrow> string" where
  "pad w n = (let s = show_nat (nat n) in replicate (w - length s) CHR ''0'' @ s)"

definition utc_iso :: "int \<Rightarrow> string" where
  "utc_iso t =
     (let r = t mod 86400000
      in case civil_from_days (t div 86400000) of
           (y, m, d) \<Rightarrow>
             pad 4 y @ ''-'' @ pad 2 m @ ''-'' @ pad 2 d @ ''T'' @ pad 2 (r div 3600000) @ '':'' @
             pad 2 (r div 60000 mod 60) @ '':'' @ pad 2 (r div 1000 mod 60) @ ''.'' @
             pad 3 (r mod 1000) @ ''Z'')"

definition field_of :: "string \<Rightarrow> nat \<Rightarrow> nat \<Rightarrow> int" where
  "field_of s i w = int (decimal_value (take w (drop i s)))"

definition utc_parse :: "string \<Rightarrow> int option" where
  "utc_parse s =
     (if length s = 24 \<and> map ((!) s) [4, 7, 10, 13, 16, 19, 23] = ''--T::.Z'' \<and>
         list_all (\<lambda>i. is_digit (s ! i)) [0, 1, 2, 3, 5, 6, 8, 9, 11, 12, 14, 15, 17, 18, 20, 21, 22]
      then Some (days_from_civil (field_of s 0 4) (field_of s 5 2) (field_of s 8 2) * 86400000 +
                 field_of s 11 2 * 3600000 + field_of s 14 2 * 60000 + field_of s 17 2 * 1000 +
                 field_of s 20 3)
      else None)"

definition lower :: "char \<Rightarrow> char" where
  "lower c = (if CHR ''A'' \<le> c \<and> c \<le> CHR ''Z'' then char_of (of_char c + (32::nat)) else c)"

definition literal_test :: "string \<Rightarrow> string \<Rightarrow> bool" where
  "literal_test pat s =
     list_ex (\<lambda>i. take (length pat) (drop i (map lower s)) = map lower pat) [0..<Suc (length s)]"

definition utc_env :: env where
  "utc_env =
     \<lparr>regexValid = (\<lambda>pat. list_all (\<lambda>c. c \<notin> set [CHR 0x5C, CHR ''^'', CHR ''$'', CHR ''.'', CHR ''|'', CHR ''?'',
                                                     CHR ''*'', CHR ''+'', CHR ''('', CHR '')'', CHR ''['', CHR '']'',
                                                     CHR ''{'', CHR ''}'']) pat),
      regexTest = literal_test,
      toNumber = (\<lambda>s. map_option of_int (int_literal s)),
      toDate = utc_parse,
      toISOString = utc_iso\<rparr>"

subsection \<open>A store for the examples\<close>

definition tshirt :: product where
  "tshirt =
     \<lparr>pid = 1, nom = ''T-shirt'', prix = 45, categorie = ''Mode'', stock = 5,
      description = ''T-shirt en coton'', isActive = True, featured = False, views = 0,
      createdAt = 1000\<rparr>"

definition laptop :: product where
  "laptop =
     \<lparr>pid = 2, nom = ''Ordinateur'', prix = 299, categorie = [CHR 0xC9] @ ''lectronique'', stock = 3,
      description = ''Ordinateur portable'', isActive = True, featured = True, views = 7,
      createdAt = 2000\<rparr>"

definition radio :: product where
  "radio =
     \<lparr>pid = 3, nom = ''Radio'', prix = 20, categorie = [CHR 0xC9] @ ''lectronique'', stock = 0,
      description = ''Radio portative'', isActive = False, featured = False, views = 2,
      createdAt = 3000\<rparr>"

definition awa :: lead where
  "awa =
     \<lparr>lid = 1, lead_nom = ''Awa'', tel = ''+243900000001'', lead_message = [], produit = 1,
      status = nouveau, source = ''website'', lead_notes = [], assignedTo = None,
      followUpDate = None, isArchived = False, lead_createdAt = 4000\<rparr>"

definition ben :: lead where
  "ben =
     \<lparr>lid = 2, lead_nom = ''Ben'', tel = ''+243900000002'', lead_message = ''Prix ?'', produit = 2,
      status = converti, source = ''website'', lead_notes = ''Rappeler lundi'', assignedTo = None,
      followUpDate = Some 5000, isArchived = False, lead_createdAt = 5000\<rparr>"

definition cleo :: lead where
  "cleo =
     \<lparr>lid = 3, lead_nom = ''Cleo'', tel = ''+243900000003'', lead_message = [], produit = 2,
      status = contacte, source = ''website'', lead_notes = [], assignedTo = Some 9,
      followUpDate = None, isArchived = False, lead_createdAt = 6000\<rparr>"

definition shop :: store where
  "shop = \<lparr>products = [tshirt, laptop, radio], leads = [awa, ben, cleo]\<rparr>"





definition request_for :: "nat \<Rightarrow> lead_body" where
  "request_for i =
     \<lparr>b_nom = Some ''Dia'', b_tel = Some ''+33 6 12 34 56 78'', b_message = None,
      b_produit = Some i\<rparr>"

definition dia :: lead where
  "dia =
     \<lparr>lid = 4, lead_nom = ''Dia'', tel = ''+33 6 12 34 56 78'', lead_message = [], produit = 1,
      status = nouveau, source = ''website'', lead_notes = [], assignedTo = None,
      followUpDate = None, isArchived = False, lead_createdAt = 7000\<rparr>"

definition archived_shop :: store where
  "archived_shop = \<lparr>products = [tshirt, laptop, radio], leads = [awa\<lparr>isArchived := True\<rparr>, ben, cleo]\<rparr>"

section \<open>Properties\<close>

subsection \<open>The pagination envelope\<close>




subsection \<open>Listings\<close>





















subsection \<open>Stock\<close>









subsection \<open>Creating a lead\<close>

lemma fold_max_ge: "(a::nat) \<le> fold max xs a"
  by (induction xs arbitrary: a) (auto intro: order_trans [OF max.cobounded2])

lemma fold_max_mem: "x \<in> set xs \<Longrightarrow> (x::nat) \<le> fold max xs a"
proof (induction xs arbitrary: a)
  case Nil
  then show ?case by simp
next
  case (Cons y ys)
  show ?case
  proof (cases "x = y")
    case True
    have "x \<le> max y a" using True by simp
    also have "\<dots> \<le> fold max ys (max y a)" by (rule fold_max_ge)
    finally show ?thesis by simp
  next
    case False
    with Cons show ?thesis by simp
  qed
qed

lemma new_id_fresh: "l \<in> set (leads st) \<Longrightarrow> lid l \<noteq> new_id st"
proof
  assume m: "l \<in> set (leads st)" and e: "lid l = new_id st"
  from m have "lid l \<in> set (map lid (leads st))" by simp
  then have "lid l \<le> fold max (map lid (leads st)) 0" by (rule fold_max_mem)
  with e show False by (simp add: new_id_def)
qed

lemma find_append_fresh:
  "\<forall>x\<in>set xs. \<not> P x \<Longrightarrow> P y \<Longrightarrow> find P (xs @ [y]) = Some y"
  by (induction xs) auto

lemma Lead_findById_created:
  "Lead_findById (st\<lparr>leads := leads st @ [new_lead now n t m p st]\<rparr>) (new_id st) =
     Some (new_lead now n t m p st)"
  unfolding Lead_findById_def
  by (simp add: find_append_fresh new_id_fresh new_lead_def)

lemma Product_findById_pid: "Product_findById st i = Some p \<Longrightarrow> pid p = i"
  by (auto simp: Product_findById_def find_Some_iff)

text \<open>
  Claim C3. A lead whose product reference resolves to no product is refused with
  status 404 (not found); a lead whose product exists but is not active is refused with
  status 400 and the message that the product is no longer available; a lead for an
  existing active product, with fields the schema accepts, is stored with the status
  \<open>nouveau\<close> and can be read back by its identifier.
\<close>

theorem create_lead_outcomes:
  "((case b_produit body of None \<Rightarrow> None | Some i \<Rightarrow> Product_findById st i) = None \<longrightarrow>
      createLead now st body = (Inr (sendError 404 (''Produit non trouv'' @ [CHR 0xE9]) None), st)) \<and>
   (b_produit body = Some i \<and> Product_findById st i = Some p \<and> \<not> isActive p \<longrightarrow>
      createLead now st body =
        (Inr (sendError 400 (''Ce produit n'' @ [CHR 0x27] @ ''est plus disponible'') None), st)) \<and>
   (b_produit body = Some i \<and> Product_findById st i = Some p \<and> isActive p \<and>
    leadSchema_validate (new_lead now (b_nom body) (b_tel body) (b_message body) i st) = [] \<longrightarrow>
      (\<exists>l. l = new_lead now (b_nom body) (b_tel body) (b_message body) i st \<and>
           status l = nouveau \<and> produit l = i \<and>
           createLead now st body =
             (Inr (sendSuccess 201
                     (''Demande envoy'' @ [CHR 0xE9] @ ''e avec succ'' @ [CHR 0xE8] @
                      ''s! Nous vous contacterons bient'' @ [CHR 0xF4] @ ''t.'')
                     (Some (Some l)) None),
              st\<lparr>leads := leads st @ [l]\<rparr>) \<and>
           Lead_findById (st\<lparr>leads := leads st @ [l]\<rparr>) (lid l) = Some l))"
proof (intro conjI impI)
  assume "(case b_produit body of None \<Rightarrow> None | Some i \<Rightarrow> Product_findById st i) = None"
  then show "createLead now st body = (Inr (sendError 404 (''Produit non trouv'' @ [CHR 0xE9]) None), st)"
    by (simp add: createLead_def)
next
  assume "b_produit body = Some i \<and> Product_findById st i = Some p \<and> \<not> isActive p"
  then show "createLead now st body =
        (Inr (sendError 400 (''Ce produit n'' @ [CHR 0x27] @ ''est plus disponible'') None), st)"
    by (simp add: createLead_def)
next
  assume a: "b_produit body = Some i \<and> Product_findById st i = Some p \<and> isActive p \<and>
    leadSchema_validate (new_lead now (b_nom body) (b_tel body) (b_message body) i st) = []"
  let ?l = "new_lead now (b_nom body) (b_tel body) (b_message body) i st"
  have i: "pid p = i" using a by (auto dest: Product_findById_pid)
  have c: "Lead_create now (b_nom body) (b_tel body) (b_message body) i st =
            Inr (?l, st\<lparr>leads := leads st @ [?l]\<rparr>)"
    using a by (simp add: Lead_create_def Let_def)
  have f: "Lead_findById (st\<lparr>leads := leads st @ [?l]\<rparr>) (lid ?l) = Some ?l"
    using Lead_findById_created [of st now "b_nom body" "b_tel body" "b_message body" i]
    by (simp add: new_lead_def)
  have r: "createLead now st body =
             (Inr (sendSuccess 201
                     (''Demande envoy'' @ [CHR 0xE9] @ ''e avec succ'' @ [CHR 0xE8] @
                      ''s! Nous vous contacterons bient'' @ [CHR 0xF4] @ ''t.'')
                     (Some (Some ?l)) None),
              st\<lparr>leads := leads st @ [?l]\<rparr>)"
    using a i c f by (simp add: createLead_def)
  have s: "status ?l = nouveau" "produit ?l = i" by (simp_all add: new_lead_def)
  from r s f show "\<exists>l. l = ?l \<and> status l = nouveau \<and> produit l = i \<and>
           createLead now st body =
             (Inr (sendSuccess 201
                     (''Demande envoy'' @ [CHR 0xE9] @ ''e avec succ'' @ [CHR 0xE8] @
                      ''s! Nous vous contacterons bient'' @ [CHR 0xF4] @ ''t.'')
                     (Some (Some l)) None),
              st\<lparr>leads := leads st @ [l]\<rparr>) \<and>
           Lead_findById (st\<lparr>leads := leads st @ [l]\<rparr>) (lid l) = Some l"
    by blast
qed

theorem create_lead_outcomes_witness:
  "(case b_produit (request_for 99) of None \<Rightarrow> None | Some i \<Rightarrow> Product_findById shop i) = None \<and>
   createLead 7000 shop (request_for 99) =
     (Inr (sendError 404 (''Produit non trouv'' @ [CHR 0xE9]) None), shop) \<and>
   b_produit (request_for 3) = Some 3 \<and> Product_findById shop 3 = Some radio \<and> \<not> isActive radio \<and>
   createLead 7000 shop (request_for 3) =
     (Inr (sendError 400 (''Ce produit n'' @ [CHR 0x27] @ ''est plus disponible'') None), shop) \<and>
   b_produit (request_for 1) = Some 1 \<and> Product_findById shop 1 = Some tshirt \<and> isActive tshirt \<and>
   leadSchema_validate
     (new_lead 7000 (b_nom (request_for 1)) (b_tel (request_for 1)) (b_message (request_for 1)) 1 shop) = [] \<and>
   new_lead 7000 (b_nom (request_for 1)) (b_tel (request_for 1)) (b_message (request_for 1)) 1 shop = dia \<and>
   createLead 7000 shop (request_for 1) =
     (Inr (sendSuccess 201
             (''Demande envoy'' @ [CHR 0xE9] @ ''e avec succ'' @ [CHR 0xE8] @
              ''s! Nous vous contacterons bient'' @ [CHR 0xF4] @ ''t.'')
             (Some (Some dia)) None),
      shop\<lparr>leads := leads shop @ [dia]\<rparr>) \<and>
   status dia = nouveau"
proof -
  have a: "(case b_produit (request_for 99) of None \<Rightarrow> None | Some i \<Rightarrow> Product_findById shop i) = None"
    by code_simp
  have b: "b_produit (request_for 3) = Some 3 \<and> Product_findById shop 3 = Some radio \<and> \<not> isActive radio"
    by code_simp
  have c: "b_produit (request_for 1) = Some 1 \<and> Product_findById shop 1 = Some tshirt \<and> isActive tshirt \<and>
     leadSchema_validate
       (new_lead 7000 (b_nom (request_for 1)) (b_tel (request_for 1)) (b_message (request_for 1)) 1 shop) = []"
    by code_simp
  have d: "new_lead 7000 (b_nom (request_for 1)) (b_tel (request_for 1)) (b_message (request_for 1)) 1 shop = dia"
    by code_simp
  have e: "status dia = nouveau"
    by (simp add: dia_def)
  from create_lead_outcomes [where body = "request_for 99" and st = shop and now = 7000]
       create_lead_outcomes [where body = "request_for 3" and st = shop and now = 7000 and i = 3 and p = radio]
       create_lead_outcomes [where body = "request_for 1" and st = shop and now = 7000 and i = 1 and p = tshirt]
       a b c d e
  show ?thesis by simp
qed

subsection \<open>Follow-up\<close>

lemma validate_unrelated [simp]:
  "leadSchema_validate (l\<lparr>status := s\<rparr>) = leadSchema_validate l"
  "leadSchema_validate (l\<lparr>followUpDate := f\<rparr>) = leadSchema_validate l"
  "leadSchema_validate (l\<lparr>assignedTo := a\<rparr>) = leadSchema_validate l"
  "leadSchema_validate (l\<lparr>isArchived := b\<rparr>) = leadSchema_validate l"
  by (simp_all add: leadSchema_validate_def)

lemma Lead_save_Inr:
  "Lead_save l st = Inr st' \<longleftrightarrow>
     leadSchema_validate l = [] \<and>
     st' = st\<lparr>leads := map (\<lambda>d. if lid d = lid l then l else d) (leads st)\<rparr>"
  by (auto simp: Lead_save_def split: list.splits)

lemma Lead_save_valid:
  "leadSchema_validate l = [] \<Longrightarrow>
     Lead_save l st = Inr (st\<lparr>leads := map (\<lambda>d. if lid d = lid l then l else d) (leads st)\<rparr>)"
  by (simp add: Lead_save_Inr)

lemma createLead_success:
  assumes "createLead now st body = (Inr r, st')" and "data r = Some (Some l)"
  shows "leadSchema_validate l = [] \<and> st' = st\<lparr>leads := leads st @ [l]\<rparr> \<and>
         status l = nouveau \<and> isArchived l = False"
proof (cases "case b_produit body of None \<Rightarrow> None | Some i \<Rightarrow> Product_findById st i")
  case None
  with assms show ?thesis by (auto simp: createLead_def sendError_def)
next
  case (Some p)
  show ?thesis
  proof (cases "isActive p")
    case False
    with Some assms show ?thesis by (auto simp: createLead_def sendError_def)
  next
    case True
    let ?l = "new_lead now (b_nom body) (b_tel body) (b_message body) (pid p) st"
    show ?thesis
    proof (cases "leadSchema_validate ?l")
      case Nil
      have f: "Lead_findById (st\<lparr>leads := leads st @ [?l]\<rparr>) (lid ?l) = Some ?l"
        unfolding Lead_findById_def
        by (rule trans [OF _ find_append_fresh [of "leads st" "\<lambda>x. lid x = lid ?l" ?l]])
           (auto simp: new_lead_def dest: new_id_fresh)
      from Some True Nil assms f have "l = ?l" "st' = st\<lparr>leads := leads st @ [?l]\<rparr>"
        by (auto simp: createLead_def Lead_create_def Let_def sendSuccess_def)
      with Nil show ?thesis by (simp add: new_lead_def)
    next
      case (Cons e es)
      with Some True assms show ?thesis
        by (auto simp: createLead_def Lead_create_def Let_def)
    qed
  qed
qed


lemma due_characterised:
  "getNeedingFollowUp now st =
     filter (\<lambda>l. isArchived l = False \<and> (\<exists>d. followUpDate l = Some d \<and> d \<le> now) \<and>
                 status l \<noteq> converti \<and> status l \<noteq> perdu) (leads st)"
  unfolding getNeedingFollowUp_def
  by (rule filter_cong) (auto split: option.splits)

lemma follow_up_scenario:
  assumes c: "createLead t0 st body = (Inr r, st0)" and d: "data r = Some (Some l)" and due: "d \<le> now"
  shows "\<exists>l1 st1 l2 st2.
           scheduleFollowUp E t1 (Some d) [] l st0 = Inr (l1, st1) \<and> lid l1 = lid l \<and>
           l1 \<in> set (getNeedingFollowUp now st1) \<and>
           updateStatus E t2 converti [] l1 st1 = Inr (l2, st2) \<and> lid l2 = lid l \<and>
           l2 \<in> set (leads st2) \<and>
           list_all (\<lambda>x. lid x \<noteq> lid l) (getNeedingFollowUp now' st2)"
proof -
  from createLead_success [OF c d]
  have v: "leadSchema_validate l = []" and st0: "st0 = st\<lparr>leads := leads st @ [l]\<rparr>"
    and fresh: "status l = nouveau" "isArchived l = False"
    by auto
  let ?l1 = "l\<lparr>followUpDate := Some d\<rparr>"
  let ?st1 = "st0\<lparr>leads := map (\<lambda>x. if lid x = lid l then ?l1 else x) (leads st0)\<rparr>"
  let ?l2 = "?l1\<lparr>status := converti\<rparr>"
  let ?st2 = "?st1\<lparr>leads := map (\<lambda>x. if lid x = lid l then ?l2 else x) (leads ?st1)\<rparr>"
  have s1: "scheduleFollowUp E t1 (Some d) [] l st0 = Inr (?l1, ?st1)"
    using v by (simp add: scheduleFollowUp_def Let_def Lead_save_valid)
  have in0: "l \<in> set (leads st0)" by (simp add: st0)
  then have in1: "?l1 \<in> set (leads ?st1)" by force
  have due1: "?l1 \<in> set (getNeedingFollowUp now ?st1)"
    unfolding due_characterised using in1 fresh due by simp
  have s2: "updateStatus E t2 converti [] ?l1 ?st1 = Inr (?l2, ?st2)"
    using v by (simp add: updateStatus_def Let_def Lead_save_valid)
  have in2: "?l2 \<in> set (leads ?st2)" using in1 by force
  have none: "list_all (\<lambda>x. lid x \<noteq> lid l) (getNeedingFollowUp now' ?st2)"
    unfolding due_characterised list_all_iff by auto
  from s1 due1 s2 in2 none show ?thesis
    by (intro exI [of _ ?l1] exI [of _ ?st1] exI [of _ ?l2] exI [of _ ?st2]) simp
qed

text \<open>
  Claim C4. \<open>getNeedingFollowUp\<close> returns exactly the leads that are not archived,
  have a follow-up date at or before the current instant and a status that is neither
  \<open>converti\<close> nor \<open>perdu\<close>. A lead that has just been created and is given a past
  follow-up date without a note is among them; once its status is set to \<open>converti\<close>
  no lead with its identifier is.
\<close>

theorem follow_up_due:
  "getNeedingFollowUp now st =
     filter (\<lambda>l. isArchived l = False \<and> (\<exists>d. followUpDate l = Some d \<and> d \<le> now) \<and>
                 status l \<noteq> converti \<and> status l \<noteq> perdu) (leads st) \<and>
   (createLead t0 st body = (Inr r, st0) \<and> data r = Some (Some l) \<and> d \<le> now \<longrightarrow>
      (\<exists>l1 st1 l2 st2.
           scheduleFollowUp E t1 (Some d) [] l st0 = Inr (l1, st1) \<and> lid l1 = lid l \<and>
           l1 \<in> set (getNeedingFollowUp now st1) \<and>
           updateStatus E t2 converti [] l1 st1 = Inr (l2, st2) \<and> lid l2 = lid l \<and>
           l2 \<in> set (leads st2) \<and>
           list_all (\<lambda>x. lid x \<noteq> lid l) (getNeedingFollowUp now' st2)))"
  using due_characterised follow_up_scenario by blast

theorem follow_up_due_witness:
  "createLead 7000 shop (request_for 1) =
     (Inr (sendSuccess 201
             (''Demande envoy'' @ [CHR 0xE9] @ ''e avec succ'' @ [CHR 0xE8] @
              ''s! Nous vous contacterons bient'' @ [CHR 0xF4] @ ''t.'')
             (Some (Some dia)) None),
      shop\<lparr>leads := leads shop @ [dia]\<rparr>) \<and>
   (6000 :: int) \<le> 8000 \<and>
   map_sum id (\<lambda>r. getNeedingFollowUp 8000 (snd r))
     (scheduleFollowUp utc_env 7500 (Some 6000) [] dia (shop\<lparr>leads := leads shop @ [dia]\<rparr>)) =
     Inr [dia\<lparr>followUpDate := Some 6000\<rparr>] \<and>
   map_sum id (\<lambda>r. getNeedingFollowUp 8000 (snd r))
     (updateStatus utc_env 7600 converti [] (dia\<lparr>followUpDate := Some 6000\<rparr>)
        (shop\<lparr>leads := leads shop @ [dia\<lparr>followUpDate := Some 6000\<rparr>]\<rparr>)) = Inr []"
proof -
  have a: "createLead 7000 shop (request_for 1) =
     (Inr (sendSuccess 201
             (''Demande envoy'' @ [CHR 0xE9] @ ''e avec succ'' @ [CHR 0xE8] @
              ''s! Nous vous contacterons bient'' @ [CHR 0xF4] @ ''t.'')
             (Some (Some dia)) None),
      shop\<lparr>leads := leads shop @ [dia]\<rparr>)"
    by code_simp
  have b: "data (sendSuccess 201
             (''Demande envoy'' @ [CHR 0xE9] @ ''e avec succ'' @ [CHR 0xE8] @
              ''s! Nous vous contacterons bient'' @ [CHR 0xF4] @ ''t.'')
             (Some (Some dia)) None) = Some (Some dia)"
    by (simp add: sendSuccess_def)
  have c: "map_sum id (\<lambda>r. getNeedingFollowUp 8000 (snd r))
     (scheduleFollowUp utc_env 7500 (Some 6000) [] dia (shop\<lparr>leads := leads shop @ [dia]\<rparr>)) =
     Inr [dia\<lparr>followUpDate := Some 6000\<rparr>]"
    by code_simp
  have d: "map_sum id (\<lambda>r. getNeedingFollowUp 8000 (snd r))
     (updateStatus utc_env 7600 converti [] (dia\<lparr>followUpDate := Some 6000\<rparr>)
        (shop\<lparr>leads := leads shop @ [dia\<lparr>followUpDate := Some 6000\<rparr>]\<rparr>)) = Inr []"
    by code_simp
  from follow_up_due [where now = 8000 and st = shop and ?t0.0 = 7000 and body = "request_for 1"
                        and l = dia and d = 6000 and E = utc_env and ?t1.0 = 7500 and ?t2.0 = 7600]
       a b c d
  show ?thesis by simp
qed

subsection \<open>The notes\<close>

lemma dropWhile_start: "xs \<noteq> [] \<Longrightarrow> \<not> P (hd xs) \<Longrightarrow> dropWhile P xs = xs"
  by (cases xs) auto

lemma trim_clean:
  assumes "s \<noteq> []" "\<not> is_space (hd s)" "\<not> is_space (last s)"
  shows "trim s = s"
proof -
  have a: "dropWhile is_space s = s"
    using assms(1,2) by (rule dropWhile_start)
  have "rev s \<noteq> []" "\<not> is_space (hd (rev s))"
    using assms(1,3) by (simp_all add: hd_rev)
  then have b: "dropWhile is_space (rev s) = rev s"
    by (rule dropWhile_start)
  show ?thesis by (simp add: trim_def a b)
qed

lemma trim_entry:
  assumes "p \<noteq> []" "\<not> is_space (hd p)" "n \<noteq> []" "\<not> is_space (last n)"
  shows "trim (p @ m @ n) = p @ m @ n"
  using assms by (intro trim_clean) (auto simp: hd_append)

lemma set_notes:
  assumes "no_outer_space n" and "p = [] \<or> \<not> is_space (hd p)"
  shows "trim (if p \<noteq> [] then p @ nl2 @ stamp @ '': '' @ tag @ n else n) = log_entry p stamp tag n"
proof (cases "p = []")
  case True
  then show ?thesis using assms by (simp add: log_entry_def no_outer_space_def trim_clean)
next
  case False
  then have "trim (p @ (nl2 @ stamp @ '': '' @ tag) @ n) = p @ (nl2 @ stamp @ '': '' @ tag) @ n"
    using assms by (intro trim_entry) (auto simp: no_outer_space_def)
  with False show ?thesis by (simp add: log_entry_def)
qed














subsection \<open>Statistics\<close>

lemma stats_byStatus:
  "map_option byStatus (data (getLeadStats E now st)) = Some (getStats st)"
  by (simp add: getLeadStats_def sendSuccess_def Let_def)

lemma stats_total:
  "map_option conversion_total (data (getLeadStats E now st)) =
     Some (length (filter (\<lambda>l. isArchived l = False) (leads st)))"
  by (simp add: getLeadStats_def sendSuccess_def Let_def)

lemma stats_converted:
  "map_option conversion_converted (data (getLeadStats E now st)) =
     Some (length (filter (\<lambda>l. status l = converti \<and> isArchived l = False) (leads st)))"
  by (simp add: getLeadStats_def sendSuccess_def Let_def)

lemma stats_rate:
  "map_option conversion_rate (data (getLeadStats E now st)) =
     Some (template
             (conversionRate
                (length (filter (\<lambda>l. status l = converti \<and> isArchived l = False) (leads st)))
                (length (filter (\<lambda>l. isArchived l = False) (leads st)))) @ ''%'')"
  by (simp add: getLeadStats_def sendSuccess_def Let_def)

subsection \<open>Archiving\<close>

lemma set_insort_by: "set (insort_by le x xs) = insert x (set xs)"
  by (induction xs) auto

lemma set_sort_by: "set (sort_by le xs) = set xs"
  by (induction xs) (auto simp: sort_by_def set_insort_by)

lemma archived_not_listed:
  assumes "getAllLeads E st q = Inr r" and "data r = Some ds"
  shows "list_all (\<lambda>l. isArchived l = False) ds"
proof -
  from assms obtain pg lmt where
    ds: "skip_limit ((pg - 1) * lmt) (lmt * 1)
           (newest_first (filter (lead_matches E (lead_query_of E q)) (leads st))) = Inr ds"
    by (auto simp: getAllLeads_def Let_def Lead_find_def Lead_countDocuments_def
        sendPaginatedResponse_def sendSuccess_def split: option.splits sum.splits if_splits)
  then have "set ds \<subseteq> set (newest_first (filter (lead_matches E (lead_query_of E q)) (leads st)))"
    by (auto simp: skip_limit_def Let_def split: if_splits dest: in_set_takeD in_set_dropD)
  then have "set ds \<subseteq> set (filter (lead_matches E (lead_query_of E q)) (leads st))"
    by (simp add: newest_first_def set_sort_by)
  then show ?thesis
    by (auto simp: list_all_iff lead_matches_def lead_query_of_def)
qed

lemma archived_not_due: "list_all (\<lambda>l. isArchived l = False) (getNeedingFollowUp now st)"
  by (simp add: getNeedingFollowUp_def list_all_iff)

text \<open>
  Claim C7 at the store where the lead 1, the only one with status \<open>nouveau\<close>, has
  been archived: the lead is still found by its identifier, it is in no listing
  (\<open>archived_not_listed\<close>) and no longer in the conversion totals, yet the grouping by
  status of \<open>getStats\<close>, which has no filter on the archived flag, still counts it.
\<close>

theorem archived_lead_counted_by_status:
  "snd (deleteLead shop 1) = archived_shop \<and>
   map_option isArchived (data (getLeadById archived_shop 1)) = Some True \<and>
   map_option byStatus (data (getLeadStats utc_env 7000 archived_shop)) =
     Some [(nouveau, 1), (converti, 1), (contacte, 1)] \<and>
   map_option conversion_total (data (getLeadStats utc_env 7000 archived_shop)) = Some 2"
  unfolding stats_byStatus stats_total by code_simp

subsection \<open>The conversion rate\<close>

lemma round_even_error: "\<bar>of_int (round_even q) - q\<bar> \<le> 1 / 2"
proof -
  have "of_int \<lfloor>q\<rfloor> \<le> q" "q < of_int \<lfloor>q\<rfloor> + 1"
    by linarith+
  then show ?thesis
    by (auto simp: round_even_def Let_def abs_le_iff)
qed

lemma binade_le:
  assumes "0 < x"
  shows "2 powi binade x \<le> x"
proof (cases "1 \<le> x")
  case True
  then have n: "0 < \<lfloor>x\<rfloor>" by linarith
  from bitlen_bounds [OF n] have "2 ^ nat (bitlen \<lfloor>x\<rfloor> - 1) \<le> \<lfloor>x\<rfloor>" by simp
  then have "rat_of_int (2 ^ nat (bitlen \<lfloor>x\<rfloor> - 1)) \<le> rat_of_int \<lfloor>x\<rfloor>"
    by (simp only: of_int_le_iff)
  also have "\<dots> \<le> x" by linarith
  finally have "2 ^ nat (bitlen \<lfloor>x\<rfloor> - 1) \<le> x" by simp
  moreover have "0 \<le> bitlen \<lfloor>x\<rfloor> - 1"
    using n by (simp add: bitlen_def floorlog_def)
  ultimately show ?thesis
    using True by (simp add: binade_def power_int_def)
next
  case False
  then have x1: "x < 1" by simp
  let ?m = "\<lceil>1 / x\<rceil>"
  let ?k = "bitlen (?m - 1)"
  have "1 < 1 / x" using assms x1 by (simp add: field_simps)
  then have m: "0 < ?m - 1" by linarith
  from bitlen_bounds [OF m] have "?m - 1 < 2 ^ nat ?k" by simp
  then have "?m \<le> 2 ^ nat ?k" by simp
  then have "rat_of_int ?m \<le> rat_of_int (2 ^ nat ?k)"
    by (simp only: of_int_le_iff)
  moreover have "1 / x \<le> rat_of_int ?m" by linarith
  ultimately have "1 / x \<le> rat_of_int (2 ^ nat ?k)" by linarith
  then have "1 / x \<le> 2 ^ nat ?k" by simp
  then have "1 / 2 ^ nat ?k \<le> x"
    using assms by (simp add: field_simps)
  moreover have "0 \<le> ?k" by (simp add: bitlen_def)
  ultimately show ?thesis
    using False by (auto simp: binade_def power_int_def field_simps)
qed

lemma double_error:
  assumes "0 \<le> x"
  shows "\<bar>double x - x\<bar> \<le> x / 2 ^ 53"
proof (cases "x = 0")
  case True
  then show ?thesis by (simp add: double_def)
next
  case False
  with assms have pos: "0 < x" by simp
  let ?s = "(2::rat) powi (binade x - 52)"
  let ?m = "rat_of_int (round_even (x / ?s))"
  have s: "0 < ?s" by simp
  have d: "double x = ?m * ?s"
    using pos by (simp add: double_def Let_def)
  have "(?m - x / ?s) * ?s = ?m * ?s - x"
    using s by (simp add: left_diff_distrib)
  then have "\<bar>?m * ?s - x\<bar> = \<bar>(?m - x / ?s) * ?s\<bar>"
    by (simp only:)
  also have "\<dots> = \<bar>?m - x / ?s\<bar> * ?s"
    using s by (simp only: abs_mult abs_of_pos)
  also have "\<dots> \<le> 1 / 2 * ?s"
    using s round_even_error [of "x / ?s"] by (intro mult_right_mono) auto
  finally have e1: "\<bar>?m * ?s - x\<bar> \<le> 1 / 2 * ?s" .
  have "?s = 2 powi binade x / 2 ^ 52"
    by (simp add: power_int_diff)
  also have "\<dots> \<le> x / 2 ^ 52"
    using binade_le [OF pos] by (simp add: divide_right_mono)
  finally have "1 / 2 * ?s \<le> 1 / 2 * (x / 2 ^ 52)"
    by (intro mult_left_mono) auto
  also have "\<dots> = x / 2 ^ 53" by simp
  finally have e3: "1 / 2 * ?s \<le> x / 2 ^ 53" .
  show ?thesis
    unfolding d using e1 e3 by (rule order_trans)
qed


lemma round_near:
  fixes y :: rat and a :: int and t :: nat
  assumes t: "0 < t" and near: "\<bar>y - of_int a / of_nat t\<bar> < 1 / (2 * of_nat t)"
  shows "\<bar>rat_of_int \<lfloor>y + 1 / 2\<rfloor> - rat_of_int a / rat_of_nat t\<bar> \<le> 1 / 2"
proof -
  let ?T = "rat_of_nat t"
  let ?n = "\<lfloor>y + 1 / 2\<rfloor>"
  have T: "0 < ?T" using t by simp
  have "\<bar>y - of_int a / ?T\<bar> * (2 * ?T) < 1 / (2 * ?T) * (2 * ?T)"
    using near T by (intro mult_strict_right_mono) auto
  then have "\<bar>(y - of_int a / ?T) * (2 * ?T)\<bar> < 1"
    using T by (simp add: abs_mult)
  moreover have "(y - of_int a / ?T) * (2 * ?T) = 2 * (?T * y) - 2 * of_int a"
    using T by (simp add: field_simps)
  ultimately have h: "\<bar>2 * (?T * y) - 2 * of_int a\<bar> < 1" by simp
  have "of_int ?n \<le> y + 1 / 2" "y + 1 / 2 < of_int ?n + 1"
    by linarith+
  then have "?T * of_int ?n \<le> ?T * (y + 1 / 2)" "?T * (y + 1 / 2) < ?T * (of_int ?n + 1)"
    using T by (simp_all only: mult_le_cancel_left_pos mult_less_cancel_left_pos)
  then have f: "2 * (?T * of_int ?n) \<le> 2 * (?T * y) + ?T" "2 * (?T * y) + ?T < 2 * (?T * of_int ?n) + 2 * ?T"
    by (simp_all add: algebra_simps)
  have "2 * rat_of_int a < 2 * (?T * of_int ?n) + ?T + 1"
    using h f by linarith
  then have "rat_of_int (2 * a) < rat_of_int ((2 * ?n + 1) * int t + 1)"
    by (simp add: algebra_simps)
  then have "2 * a < (2 * ?n + 1) * int t + 1"
    by (simp only: of_int_less_iff)
  then have "2 * a \<le> (2 * ?n + 1) * int t"
    by simp
  then have "rat_of_int (2 * a) \<le> rat_of_int ((2 * ?n + 1) * int t)"
    by (simp only: of_int_le_iff)
  then have up: "2 * rat_of_int a \<le> (2 * of_int ?n + 1) * ?T"
    by simp
  have "2 * (?T * of_int ?n) - ?T - 1 < 2 * rat_of_int a"
    using h f by linarith
  then have "rat_of_int ((2 * ?n - 1) * int t - 1) < rat_of_int (2 * a)"
    by (simp add: algebra_simps)
  then have "(2 * ?n - 1) * int t - 1 < 2 * a"
    by (simp only: of_int_less_iff)
  then have "(2 * ?n - 1) * int t \<le> 2 * a"
    by simp
  then have "rat_of_int ((2 * ?n - 1) * int t) \<le> rat_of_int (2 * a)"
    by (simp only: of_int_le_iff)
  then have lo: "(2 * of_int ?n - 1) * ?T \<le> 2 * rat_of_int a"
    by simp
  from up lo T have "of_int a / ?T \<le> of_int ?n + 1 / 2" "of_int ?n - 1 / 2 \<le> of_int a / ?T"
    by (simp_all add: field_simps)
  then show ?thesis by linarith
qed

lemma double_nonneg: "0 \<le> x \<Longrightarrow> 0 \<le> double x"
  by (auto simp: double_def Let_def round_even_def zero_le_mult_iff sgn_if
      intro!: divide_nonneg_pos)


lemma two_roundings:
  fixes a b q u :: rat
  assumes "\<bar>a - q\<bar> \<le> u" and "\<bar>b - a * 100\<bar> \<le> (1 + u) * 100 * u"
  shows "\<bar>b * 100 - 10000 * q\<bar> \<le> 10000 * u * (2 + u)"
proof -
  have "\<bar>b * 100 - 10000 * q\<bar> = \<bar>100 * (b - a * 100) + 10000 * (a - q)\<bar>"
    by (simp add: algebra_simps)
  also have "\<dots> \<le> \<bar>100 * (b - a * 100)\<bar> + \<bar>10000 * (a - q)\<bar>"
    by (rule abs_triangle_ineq)
  also have "\<dots> = 100 * \<bar>b - a * 100\<bar> + 10000 * \<bar>a - q\<bar>"
    by (simp only: abs_mult)
  also have "\<dots> \<le> 100 * ((1 + u) * 100 * u) + 10000 * u"
    using assms by (intro add_mono mult_left_mono) auto
  also have "\<dots> = 10000 * u * (2 + u)"
    by (simp add: algebra_simps)
  finally show ?thesis .
qed

lemma rate_rounding:
  assumes t: "0 < t" and c: "c \<le> t" and small: "t < 2 ^ 32"
  shows "\<bar>rat_of_nat (hundredths (double (double (of_nat c / of_nat t) * 100))) / 100 -
           100 * of_nat c / of_nat t\<bar> \<le> 1 / 200"
proof -
  let ?T = "rat_of_nat t"
  let ?q = "rat_of_nat c / ?T"
  let ?x1 = "double ?q"
  let ?x2 = "double (?x1 * 100)"
  let ?u = "1 / 2 ^ 53 :: rat"
  have T: "0 < ?T" using t by simp
  have q: "0 \<le> ?q" "?q \<le> 1" using t c by simp_all
  have x1: "0 \<le> ?x1" using q(1) by (rule double_nonneg)
  have e1: "\<bar>?x1 - ?q\<bar> \<le> ?q * ?u"
    using double_error [OF q(1)] by simp
  have "?q * ?u \<le> 1 * ?u"
    using q(2) by (intro mult_right_mono) auto
  with e1 have e1': "\<bar>?x1 - ?q\<bar> \<le> ?u" by simp
  then have x1le: "?x1 \<le> 1 + ?u" using q(2) by linarith
  have x2: "0 \<le> ?x2" using x1 by (intro double_nonneg) simp
  have "\<bar>?x2 - ?x1 * 100\<bar> \<le> ?x1 * 100 * ?u"
    using double_error [of "?x1 * 100"] x1 by simp
  also have "\<dots> \<le> (1 + ?u) * 100 * ?u"
    using x1le by (intro mult_right_mono) auto
  finally have e2: "\<bar>?x2 - ?x1 * 100\<bar> \<le> (1 + ?u) * 100 * ?u" .
  have near: "\<bar>?x2 * 100 - 10000 * ?q\<bar> \<le> 10000 * ?u * (2 + ?u)"
    using e1' e2 by (rule two_roundings)
  have "10000 * ?u * (2 + ?u) * (2 * ?T) < 10000 * ?u * (2 + ?u) * (2 * 2 ^ 32)"
    using small by (intro mult_strict_left_mono) (simp_all add: of_nat_less_numeral_power_cancel_iff)
  also have "\<dots> < 1" by simp
  finally have "10000 * ?u * (2 + ?u) < 1 / (2 * ?T)"
    using T by (simp add: field_simps)
  with near have n2: "\<bar>?x2 * 100 - rat_of_int (10000 * int c) / ?T\<bar> < 1 / (2 * ?T)"
    by simp
  have fl: "0 \<le> \<lfloor>?x2 * 100 + 1 / 2\<rfloor>" using x2 by simp
  have h: "rat_of_nat (hundredths ?x2) = rat_of_int \<lfloor>?x2 * 100 + 1 / 2\<rfloor>"
    using x2 fl by (simp add: hundredths_def)
  from round_near [OF t n2]
  have "\<bar>rat_of_nat (hundredths ?x2) - 10000 * ?q\<bar> \<le> 1 / 2"
    by (simp add: h)
  then show ?thesis by (simp add: field_simps)
qed

lemma floor_rat_numeral: "\<lfloor>(numeral a :: rat) / numeral b\<rfloor> = numeral a div numeral b"
  using floor_divide_of_int_eq [of "numeral a" "numeral b", where ?'a = rat] by simp

lemma ceiling_rat_numeral: "\<lceil>(numeral a :: rat) / numeral b\<rceil> = - (- numeral a div numeral b)"
  using ceiling_divide_eq_div [of "numeral a" "numeral b", where ?'a = rat] by simp

lemma conversionRate_positive:
  assumes "0 < t" and "c \<le> t" and "t < 2 ^ 32"
  shows "\<exists>n. conversionRate c t = JString (fixed2 n) \<and>
             \<bar>rat_of_nat n / 100 - 100 * rat_of_nat c / rat_of_nat t\<bar> \<le> 1 / 200"
proof -
  let ?x = "double (double (rat_of_nat c / rat_of_nat t) * 100)"
  have "0 \<le> double (rat_of_nat c / rat_of_nat t)"
    by (intro double_nonneg) simp
  then have "0 \<le> ?x"
    by (intro double_nonneg) simp
  then have "conversionRate c t = JString (fixed2 (hundredths ?x))"
    using assms(1) by (simp add: conversionRate_def toFixed2_def)
  with rate_rounding [OF assms] show ?thesis
    by blast
qed

lemma length_filter_conj: "length (filter (\<lambda>x. P x \<and> Q x) xs) \<le> length (filter Q xs)"
  by (induction xs) auto

lemma template_zero: "template (JNumber 0) @ ''%'' = ''0%''"
  by code_simp

text \<open>
  Claim C6. The statistics report as total the number of leads that are not archived
  and as converted the number of those with status \<open>converti\<close>. When the total is zero
  the rate is the number 0 (shown as \<open>0%\<close>) and nothing is divided; otherwise it is the
  percentage 100 * converted / total written with two decimals, within half a hundredth of
  the exact value (for a store of fewer than \<open>2 ^ 32\<close> leads, where the two roundings of
  the binary arithmetic cannot move the result to another hundredth).
\<close>

theorem conversion_rate_rounded:
  assumes "length (leads st) < 2 ^ 32"
  shows
    "conversionRate c 0 = JNumber 0 \<and>
     (\<exists>s. data (getLeadStats E now st) = Some s \<and>
        conversion_total s = length (filter (\<lambda>l. isArchived l = False) (leads st)) \<and>
        conversion_converted s =
          length (filter (\<lambda>l. status l = converti \<and> isArchived l = False) (leads st)) \<and>
        (if conversion_total s = 0 then conversion_rate s = ''0%''
         else \<exists>n. conversion_rate s = fixed2 n @ ''%'' \<and>
                \<bar>rat_of_nat n / 100 -
                 100 * rat_of_nat (conversion_converted s) / rat_of_nat (conversion_total s)\<bar>
                  \<le> 1 / 200))"
proof -
  let ?t = "length (filter (\<lambda>l. isArchived l = False) (leads st))"
  let ?c = "length (filter (\<lambda>l. status l = converti \<and> isArchived l = False) (leads st))"
  obtain s where s: "data (getLeadStats E now st) = Some s"
    by (simp add: getLeadStats_def sendSuccess_def Let_def)
  have t: "conversion_total s = ?t" using stats_total [of E now st] s by simp
  have c: "conversion_converted s = ?c" using stats_converted [of E now st] s by simp
  have r: "conversion_rate s = template (conversionRate ?c ?t) @ ''%''"
    using stats_rate [of E now st] s by simp
  have "?t \<le> length (leads st)" by (rule length_filter_le)
  then have small: "?t < 2 ^ 32" using assms by (rule le_less_trans)
  have le: "?c \<le> ?t" by (rule length_filter_conj)
  have rate: "if ?t = 0 then conversion_rate s = ''0%''
        else \<exists>n. conversion_rate s = fixed2 n @ ''%'' \<and>
               \<bar>rat_of_nat n / 100 - 100 * rat_of_nat ?c / rat_of_nat ?t\<bar> \<le> 1 / 200"
  proof (cases "?t = 0")
    case True
    then show ?thesis
      using r template_zero by (simp add: conversionRate_def)
  next
    case False
    then have "0 < ?t" by simp
    from conversionRate_positive [OF this le small] obtain n where
      "conversionRate ?c ?t = JString (fixed2 n)"
      "\<bar>rat_of_nat n / 100 - 100 * rat_of_nat ?c / rat_of_nat ?t\<bar> \<le> 1 / 200"
      by blast
    with False r show ?thesis
      by (auto simp: template_def)
  qed
  have main: "if conversion_total s = 0 then conversion_rate s = ''0%''
        else \<exists>n. conversion_rate s = fixed2 n @ ''%'' \<and>
               \<bar>rat_of_nat n / 100 -
                100 * rat_of_nat (conversion_converted s) / rat_of_nat (conversion_total s)\<bar>
                 \<le> 1 / 200"
    unfolding t c by (rule rate)
  have z: "conversionRate c 0 = JNumber 0"
    by (simp add: conversionRate_def)
  from z s t c main show ?thesis
    by blast
qed

theorem conversion_rate_rounded_witness:
  "length (leads shop) < 2 ^ 32 \<and>
   map_option conversion_total (data (getLeadStats utc_env 7000 shop)) = Some 3 \<and>
   map_option conversion_converted (data (getLeadStats utc_env 7000 shop)) = Some 1 \<and>
   map_option conversion_rate (data (getLeadStats utc_env 7000 shop)) = Some ''33.33%'' \<and>
   map_option conversion_rate (data (getLeadStats utc_env 7000 \<lparr>products = [], leads = []\<rparr>)) =
     Some ''0%''"
proof -
  have a: "length (leads shop) < 2 ^ 32"
    by (simp add: shop_def)
  have t: "length (filter (\<lambda>l. isArchived l = False) (leads shop)) = 3"
    by code_simp
  have c: "length (filter (\<lambda>l. status l = converti \<and> isArchived l = False) (leads shop)) = 1"
    by code_simp
  have bl: "bitlen 2 = 2" "bitlen 33 = 6"
    by code_simp+
  have h: "hundredths (double (double (1 / 3) * 100)) = 3333"
    by (simp add: hundredths_def double_def binade_def bl Let_def round_even_def power_int_minus
        floor_rat_numeral ceiling_rat_numeral)
  have "0 \<le> double (1 / 3)"
    by (intro double_nonneg) simp
  then have "0 \<le> double (double (1 / 3) * 100)"
    by (intro double_nonneg) simp
  then have "toFixed2 (double (double (1 / 3) * 100)) = fixed2 3333"
    by (simp add: toFixed2_def h)
  moreover have "fixed2 3333 = ''33.33''"
    by code_simp
  ultimately have r: "conversionRate 1 3 = JString ''33.33''"
    by (simp add: conversionRate_def)
  have z: "map_option conversion_rate (data (getLeadStats utc_env 7000 \<lparr>products = [], leads = []\<rparr>)) =
     Some ''0%''"
    unfolding stats_rate using template_zero by (simp add: conversionRate_def)
  have tt: "map_option conversion_total (data (getLeadStats utc_env 7000 shop)) = Some 3"
    by (simp only: stats_total t)
  have cc: "map_option conversion_converted (data (getLeadStats utc_env 7000 shop)) = Some 1"
    by (simp only: stats_converted c)
  have rr: "map_option conversion_rate (data (getLeadStats utc_env 7000 shop)) = Some ''33.33%''"
    unfolding stats_rate t c r by (simp add: template_def)
  from conversion_rate_rounded [OF a, of 1 utc_env 7000] a tt cc rr z
  show ?thesis
    by blast
qed

end
